theory Spec2Isabelle
  imports Complex_Main "HOL-Library.AList"
begin

section \<open>Text emotion inference script: tokenizer, result formatting, command line\<close>

text \<open>
  The development follows \<^verbatim>\<open>backend/src/text-service/bilstm_onnx_inference.py\<close>.
  A Python string is a list of characters; a character is read as a code point
  below 256. Raised exceptions are values of \<open>py_exception\<close>, and a function that
  can raise returns \<open>py_exception + 'a\<close> with \<open>Inl\<close> for the exception.
\<close>

subsection \<open>Exceptions\<close>

datatype py_exception = KeyError string | ValueError string | Exception string

text \<open>\<^verbatim>\<open>str(e)\<close>: a \<^verbatim>\<open>KeyError\<close> prints the quoted key, the others their message.\<close>

fun str_exc :: "py_exception \<Rightarrow> string" where
  "str_exc (KeyError k) = [CHR 0x27] @ k @ [CHR 0x27]"
| "str_exc (ValueError m) = m"
| "str_exc (Exception m) = m"

subsection \<open>Characters and the string methods the script calls\<close>

text \<open>\<^verbatim>\<open>str.isspace\<close> on one character, which is also the class \<^verbatim>\<open>\s\<close> of \<^verbatim>\<open>re\<close>
  on \<^verbatim>\<open>str\<close> patterns: tab to carriage return, the four separators, space,
  next line and no-break space.\<close>

definition py_isspace :: "char \<Rightarrow> bool" where
  "py_isspace c =
     (let n = (of_char c :: nat)
      in (9 \<le> n \<and> n \<le> 13) \<or> (28 \<le> n \<and> n \<le> 32) \<or> n = 133 \<or> n = 160)"

text \<open>The class \<^verbatim>\<open>[a-z]\<close>.\<close>

definition is_az :: "char \<Rightarrow> bool" where
  "is_az c = (let n = (of_char c :: nat) in 97 \<le> n \<and> n \<le> 122)"

text \<open>\<^verbatim>\<open>str.lower\<close> on one character: the capital letters of ASCII and of
  Latin-1 (all of 192 to 222 but the multiplication sign) move up by 32.\<close>

definition lower_char :: "char \<Rightarrow> char" where
  "lower_char c =
     (let n = (of_char c :: nat)
      in if (65 \<le> n \<and> n \<le> 90) \<or> (192 \<le> n \<and> n \<le> 222 \<and> n \<noteq> 215)
         then char_of (n + 32) else c)"

definition lower :: "string \<Rightarrow> string" where
  "lower text = map lower_char text"

text \<open>\<^verbatim>\<open>str.split()\<close> without arguments: the maximal runs of characters that are
  not whitespace, in order. \<open>cur\<close> is the run being read.\<close>

fun split_acc :: "string \<Rightarrow> string \<Rightarrow> string list" where
  "split_acc cur [] = (if cur = [] then [] else [cur])"
| "split_acc cur (c # cs) =
     (if py_isspace c
      then (if cur = [] then split_acc [] cs else cur # split_acc [] cs)
      else split_acc (cur @ [c]) cs)"

definition split :: "string \<Rightarrow> string list" where
  "split text = split_acc [] text"

text \<open>\<^verbatim>\<open>sep.join(parts)\<close>.\<close>

fun join :: "string \<Rightarrow> string list \<Rightarrow> string" where
  "join sep [] = []"
| "join sep [x] = x"
| "join sep (x # y # ys) = x @ sep @ join sep (y # ys)"

text \<open>\<^verbatim>\<open>str.strip()\<close> without arguments.\<close>

definition strip :: "string \<Rightarrow> string" where
  "strip text = rev (dropWhile py_isspace (rev (dropWhile py_isspace text)))"

text \<open>\<^verbatim>\<open>str.split(sep)\<close> with a one-character separator: empty pieces are kept,
  and the result is never empty.\<close>

fun split_on :: "char \<Rightarrow> string \<Rightarrow> string list" where
  "split_on sep [] = [[]]"
| "split_on sep (c # cs) =
     (if c = sep then [] # split_on sep cs
      else (case split_on sep cs of
              [] \<Rightarrow> [[c]]
            | w # ws \<Rightarrow> (c # w) # ws))"

text \<open>\<^verbatim>\<open>xs[:n]\<close>: a negative \<open>n\<close> counts from the end.\<close>

definition py_take :: "int \<Rightarrow> 'a list \<Rightarrow> 'a list" where
  "py_take n xs =
     (if 0 \<le> n then take (nat n) xs else take (nat (int (length xs) + n)) xs)"

text \<open>\<^verbatim>\<open>str(n)\<close> for a length.\<close>

definition digit_char :: "nat \<Rightarrow> char" where
  "digit_char d = char_of (48 + d)"

function str_nat :: "nat \<Rightarrow> string" where
  "str_nat n = (if n < 10 then [digit_char n] else str_nat (n div 10) @ [digit_char (n mod 10)])"
  by pat_completeness auto
termination
  by (relation "measure id") auto

subsection \<open>TextTokenizer\<close>

record tokenizer =
  max_length :: int
  vocab_size :: int
  word_index :: "string \<rightharpoonup> int"

definition common_words :: "string list" where
  "common_words =
    [''<PAD>'', ''<UNK>'',
     ''i'', ''you'', ''he'', ''she'', ''it'', ''we'', ''they'',
     ''am'', ''is'', ''are'', ''was'', ''were'', ''be'', ''been'', ''being'',
     ''have'', ''has'', ''had'', ''do'', ''does'', ''did'',
     ''will'', ''would'', ''could'', ''should'', ''may'', ''might'', ''must'',
     ''can'', ''cannot'', ''cant'',
     ''the'', ''a'', ''an'', ''and'', ''or'', ''but'', ''if'', ''then'',
     ''not'', ''no'', ''yes'',
     ''happy'', ''sad'', ''angry'', ''fear'', ''scared'', ''afraid'',
     ''joy'', ''joyful'', ''excited'', ''excited'',
     ''upset'', ''frustrated'', ''annoyed'', ''mad'',
     ''love'', ''hate'', ''like'', ''dislike'',
     ''good'', ''bad'', ''great'', ''terrible'', ''awful'',
     ''feel'', ''feeling'', ''felt'',
     ''very'', ''really'', ''so'', ''too'', ''much'',
     ''sorry'', ''please'', ''thank'', ''thanks'',
     ''help'', ''need'', ''want'', ''wish'',
     ''think'', ''thought'', ''know'', ''believe'',
     ''see'', ''look'', ''hear'', ''listen'',
     ''go'', ''come'', ''get'', ''make'', ''take'',
     ''day'', ''time'', ''way'', ''people'', ''thing'',
     ''work'', ''life'', ''world'', ''home'', ''friend'',
     ''tell'', ''say'', ''said'', ''ask'', ''asked'',
     ''just'', ''now'', ''today'', ''never'', ''always'',
     ''about'', ''after'', ''before'', ''because'', ''when'', ''where'',
     ''what'', ''why'', ''how'', ''who'', ''which'']"

text \<open>The dictionary comprehension over \<^verbatim>\<open>enumerate(common_words)\<close>: a word that
  occurs twice keeps its later index. \<open>idx\<close> is the position of the head of \<open>ws\<close>.\<close>

fun index_words :: "nat \<Rightarrow> string list \<Rightarrow> (string \<rightharpoonup> int) \<Rightarrow> (string \<rightharpoonup> int)" where
  "index_words idx [] m = m"
| "index_words idx (word # ws) m = index_words (Suc idx) ws (m(word \<mapsto> int idx + 1))"

definition build_basic_vocab :: "string \<rightharpoonup> int" where
  "build_basic_vocab =
     (let word_index = index_words 0 common_words Map.empty;
          word_index = word_index(''<PAD>'' \<mapsto> 0);
          word_index = word_index(''<UNK>'' \<mapsto> 1)
      in word_index)"

text \<open>The constructor, \<^verbatim>\<open>TextTokenizer(max_length=80, vocab_size=10000)\<close>.\<close>

definition TextTokenizer :: "int \<Rightarrow> int \<Rightarrow> tokenizer" where
  "TextTokenizer ml vs =
     \<lparr>max_length = ml, vocab_size = vs, word_index = build_basic_vocab\<rparr>"

definition default_max_length :: int where
  "default_max_length = 80"

definition default_vocab_size :: int where
  "default_vocab_size = 10000"

definition preprocess_text :: "string \<Rightarrow> string" where
  "preprocess_text text =
     (let text = lower text;
          text = filter (\<lambda>c. is_az c \<or> py_isspace c) text;
          text = join '' '' (split text)
      in text)"

text \<open>The loop of \<^verbatim>\<open>tokenize\<close> over the words kept: the default of \<^verbatim>\<open>get\<close>,
  \<^verbatim>\<open>self.word_index['<UNK>']\<close>, is looked up at every word and raises when the key
  is missing.\<close>

fun to_indices :: "(string \<rightharpoonup> int) \<Rightarrow> string list \<Rightarrow> py_exception + int list" where
  "to_indices wi [] = Inr []"
| "to_indices wi (word # ws) =
     (case wi ''<UNK>'' of
        None \<Rightarrow> Inl (KeyError ''<UNK>'')
      | Some unk \<Rightarrow>
          (let idx = (case wi word of None \<Rightarrow> unk | Some i \<Rightarrow> i)
           in case to_indices wi ws of
                Inl e \<Rightarrow> Inl e
              | Inr sequence \<Rightarrow> Inr (idx # sequence)))"

text \<open>\<^verbatim>\<open>tokenize\<close> returns an array of shape \<open>(1, max_length)\<close>; the model keeps
  its one row.\<close>

definition tokenize :: "tokenizer \<Rightarrow> string \<Rightarrow> py_exception + int list" where
  "tokenize self text0 =
     (let text = preprocess_text text0;
          words = split text
      in case to_indices (word_index self) (py_take (max_length self) words) of
           Inl e \<Rightarrow> Inl e
         | Inr sequence \<Rightarrow>
             Inr (if int (length sequence) < max_length self
                  then sequence @ replicate (nat (max_length self - int (length sequence))) 0
                  else sequence))"

subsection \<open>The inference session and the result\<close>

text \<open>
  The ONNX runtime is outside the script. A session is what lines 152 to 158 of
  \<^verbatim>\<open>predict_emotion\<close> make of it: from the input row to the row
  \<^verbatim>\<open>outputs[0][0]\<close> of scores, or the exception the runtime raises. Scores are
  taken from a linear order, so a vector has no NaN.
\<close>

type_synonym 'a session = "int list \<Rightarrow> py_exception + 'a list"

text \<open>The dictionary the script prints. \<open>scores\<close> is a Python \<^verbatim>\<open>dict\<close>: an
  association list in insertion order, in which storing under a key that is present
  replaces its value in place (\<open>AList.update\<close>).\<close>

datatype 'a result =
    Success (emotion: string) (confidence: 'a) (scores: "(string \<times> 'a) list")
            (model: string) (text_length: nat) (tokens_used: nat)
  | Failure (error: string)

fun success :: "'a result \<Rightarrow> bool" where
  "success (Success e c s m l t) = True"
| "success (Failure msg) = False"

text \<open>\<^verbatim>\<open>np.argmax\<close> on a vector: the scan keeps the first position of the largest
  value seen, and an empty vector raises.\<close>

fun argmax_scan :: "'a::linorder list \<Rightarrow> nat \<Rightarrow> 'a \<Rightarrow> nat \<Rightarrow> nat" where
  "argmax_scan [] i mv mi = mi"
| "argmax_scan (x # xs) i mv mi =
     (if mv < x then argmax_scan xs (Suc i) x i else argmax_scan xs (Suc i) mv mi)"

fun np_argmax :: "'a::linorder list \<Rightarrow> py_exception + nat" where
  "np_argmax [] = Inl (ValueError ''attempt to get argmax of an empty sequence'')"
| "np_argmax (x # xs) = Inr (argmax_scan xs 1 x 0)"

text \<open>\<^verbatim>\<open>np.count_nonzero\<close>.\<close>

definition count_nonzero :: "int list \<Rightarrow> nat" where
  "count_nonzero xs = length (filter (\<lambda>x. x \<noteq> 0) xs)"

text \<open>The loop that fills \<open>scores\<close>, here \<open>d\<close>; \<open>idx\<close> is the position of the head
  of the labels left.\<close>

fun fill_scores :: "'a list \<Rightarrow> nat \<Rightarrow> string list \<Rightarrow> (string \<times> 'a) list \<Rightarrow> (string \<times> 'a) list" where
  "fill_scores predictions idx [] d = d"
| "fill_scores predictions idx (label # ls) d =
     fill_scores predictions (Suc idx) ls (AList.update label (predictions ! idx) d)"

text \<open>Lines 160 to 184 of \<^verbatim>\<open>predict_emotion\<close>: what is made of the scores once
  the session has returned them.\<close>

definition format_predictions ::
  "'a::linorder list \<Rightarrow> string list \<Rightarrow> string \<Rightarrow> int list \<Rightarrow> py_exception + 'a result" where
  "format_predictions predictions emotion_labels text input_sequence =
     (if length predictions \<noteq> length emotion_labels
      then Inr (Failure (''Model output size ('' @ str_nat (length predictions)
                  @ '') doesn't match emotion labels count (''
                  @ str_nat (length emotion_labels)
                  @ ''). Model expects '' @ str_nat (length predictions) @ '' emotions.''))
      else case np_argmax predictions of
             Inl e \<Rightarrow> Inl e
           | Inr max_idx \<Rightarrow>
               (let max_confidence = predictions ! max_idx;
                    scores = fill_scores predictions 0 emotion_labels []
                in Inr (Success (emotion_labels ! max_idx) max_confidence scores
                          ''bilstm_onnx'' (length text) (count_nonzero input_sequence))))"

text \<open>The body of the \<^verbatim>\<open>try\<close> of \<^verbatim>\<open>predict_emotion\<close>.\<close>

definition predict_emotion_try ::
  "'a::linorder session \<Rightarrow> string \<Rightarrow> string list \<Rightarrow> tokenizer \<Rightarrow> py_exception + 'a result" where
  "predict_emotion_try session text emotion_labels tokenizer =
     (case tokenize tokenizer text of
        Inl e \<Rightarrow> Inl e
      | Inr input_sequence \<Rightarrow>
          (case session input_sequence of
             Inl e \<Rightarrow> Inl e
           | Inr predictions \<Rightarrow>
               format_predictions predictions emotion_labels text input_sequence))"

text \<open>\<^verbatim>\<open>predict_emotion\<close>: every exception of the body becomes a failure.\<close>

definition predict_emotion ::
  "'a::linorder session \<Rightarrow> string \<Rightarrow> string list \<Rightarrow> tokenizer \<Rightarrow> 'a result" where
  "predict_emotion session text emotion_labels tokenizer =
     (case predict_emotion_try session text emotion_labels tokenizer of
        Inl e \<Rightarrow> Failure (''Prediction failed: '' @ str_exc e)
      | Inr result \<Rightarrow> result)"

subsection \<open>The command line\<close>

text \<open>\<^verbatim>\<open>load_onnx_model\<close>; its argument \<open>InferenceSession\<close> stands for the runtime's
  constructor.\<close>

definition load_onnx_model ::
  "(string \<Rightarrow> py_exception + 'a session) \<Rightarrow> string \<Rightarrow> py_exception + 'a session" where
  "load_onnx_model InferenceSession model_path =
     (case InferenceSession model_path of
        Inl e \<Rightarrow> Inl (Exception (''Failed to load ONNX model: '' @ str_exc e))
      | Inr session \<Rightarrow> Inr session)"

text \<open>\<^verbatim>\<open>main\<close> on \<^verbatim>\<open>sys.argv\<close>: the JSON object printed and the exit status of the
  process. \<^verbatim>\<open>sys.exit(1)\<close> is not caught by \<^verbatim>\<open>except Exception\<close>; a run that
  reaches the end of \<^verbatim>\<open>main\<close> exits with status 0.\<close>

definition main ::
  "(string \<Rightarrow> py_exception + 'a::linorder session) \<Rightarrow> string list \<Rightarrow> 'a result \<times> nat" where
  "main InferenceSession argv =
     (if length argv < 4
      then (Failure ''Usage: python bilstm_onnx_inference.py <model_path> <text> <emotion_labels>'', 1)
      else
        (let model_path = argv ! 1;
             text = argv ! 2;
             emotion_labels = split_on CHR '','' (argv ! 3)
         in if text = [] \<or> length (strip text) = 0
            then (Failure ''Empty text provided'', 1)
            else
              (let tokenizer = TextTokenizer 80 default_vocab_size
               in case load_onnx_model InferenceSession model_path of
                    Inl e \<Rightarrow> (Failure (str_exc e), 1)
                  | Inr session \<Rightarrow>
                      (predict_emotion session text emotion_labels tokenizer, 0))))"

text \<open>The script from its first line: without \<^verbatim>\<open>onnxruntime\<close> the import fails
  and the script exits before \<^verbatim>\<open>main\<close>.\<close>

definition script ::
  "(string \<Rightarrow> py_exception + 'a::linorder session) option \<Rightarrow> string list \<Rightarrow> 'a result \<times> nat" where
  "script ort argv =
     (case ort of
        None \<Rightarrow> (Failure ''onnxruntime not installed. Install with: pip install onnxruntime'', 1)
      | Some InferenceSession \<Rightarrow> main InferenceSession argv)"

subsection \<open>Auxiliary notions for the proofs\<close>

text \<open>The text after the first two steps of \<^verbatim>\<open>preprocess_text\<close>: lowered, and with
  every character outside \<^verbatim>\<open>[a-z\s]\<close> removed.\<close>

definition kept :: "string \<Rightarrow> string" where
  "kept t = filter (\<lambda>c. is_az c \<or> py_isspace c) (lower t)"

text \<open>The words of the normalised text, which \<^verbatim>\<open>tokenize\<close> maps to indices.\<close>

definition words_of :: "string \<Rightarrow> string list" where
  "words_of t = split (preprocess_text t)"

text \<open>The index \<^verbatim>\<open>tokenize\<close> gives a word under the vocabulary of
  \<^verbatim>\<open>_build_basic_vocab\<close>: the word's entry, or the unknown index 1.\<close>

definition word_idx :: "string \<Rightarrow> int" where
  "word_idx w = (case build_basic_vocab w of None \<Rightarrow> 1 | Some i \<Rightarrow> i)"

section \<open>Properties\<close>

subsection \<open>Normalisation\<close>

lemma is_az_not_space: "is_az c \<Longrightarrow> \<not> py_isspace c"
  unfolding is_az_def py_isspace_def Let_def by arith

lemma lower_char_az: "is_az c \<Longrightarrow> lower_char c = c"
  unfolding is_az_def lower_char_def Let_def by simp

lemma isspace_blank: "py_isspace CHR '' ''"
  by (simp add: py_isspace_def)

lemma lower_char_blank: "lower_char CHR '' '' = CHR '' ''"
  by (simp add: lower_char_def)

lemma is_az_blank: "\<not> is_az CHR '' ''"
  by (simp add: is_az_def)

lemma split_acc_words:
  "(\<forall>c\<in>set cur. \<not> py_isspace c) \<Longrightarrow> w \<in> set (split_acc cur s) \<Longrightarrow>
     w \<noteq> [] \<and> (\<forall>c\<in>set w. \<not> py_isspace c \<and> (c \<in> set cur \<or> c \<in> set s))"
proof (induction s arbitrary: cur)
  case Nil
  then have "w = cur" "cur \<noteq> []" by (simp_all split: if_splits)
  with Nil.prems(1) show ?case by simp
next
  case (Cons c cs)
  show ?case
  proof (cases "py_isspace c")
    case True
    with Cons.prems(2) have "w = cur \<and> cur \<noteq> [] \<or> w \<in> set (split_acc [] cs)"
      by (simp split: if_splits)
    then show ?thesis
    proof
      assume "w = cur \<and> cur \<noteq> []"
      with Cons.prems(1) show ?thesis by simp
    next
      assume a: "w \<in> set (split_acc [] cs)"
      have "w \<noteq> [] \<and> (\<forall>d\<in>set w. \<not> py_isspace d \<and> (d \<in> set [] \<or> d \<in> set cs))"
        by (rule Cons.IH [OF _ a]) simp
      then show ?thesis by simp
    qed
  next
    case False
    with Cons.prems(2) have a: "w \<in> set (split_acc (cur @ [c]) cs)" by simp
    from False Cons.prems(1) have b: "\<forall>d\<in>set (cur @ [c]). \<not> py_isspace d" by simp
    have "w \<noteq> [] \<and> (\<forall>d\<in>set w. \<not> py_isspace d \<and> (d \<in> set (cur @ [c]) \<or> d \<in> set cs))"
      by (rule Cons.IH [OF b a])
    then show ?thesis by auto
  qed
qed

lemma split_acc_run:
  "(\<forall>c\<in>set w. \<not> py_isspace c) \<Longrightarrow> split_acc cur (w @ s) = split_acc (cur @ w) s"
  by (induction w arbitrary: cur) auto

lemma split_join:
  "(\<forall>w\<in>set ws. w \<noteq> [] \<and> (\<forall>c\<in>set w. \<not> py_isspace c)) \<Longrightarrow> split_acc [] (join '' '' ws) = ws"
proof (induction ws rule: induct_list012)
  case 1
  then show ?case by simp
next
  case (2 x)
  then have "split_acc [] (x @ []) = split_acc ([] @ x) []" by (intro split_acc_run) simp
  with 2 show ?case by simp
next
  case (3 x y ys)
  from 3(3) have nx: "\<forall>c\<in>set x. \<not> py_isspace c" and x: "x \<noteq> []" by simp_all
  from 3(3) have rest: "\<forall>w\<in>set (y # ys). w \<noteq> [] \<and> (\<forall>c\<in>set w. \<not> py_isspace c)" by simp
  have "split_acc [] (x @ '' '' @ join '' '' (y # ys)) = split_acc ([] @ x) ('' '' @ join '' '' (y # ys))"
    using nx by (rule split_acc_run)
  also have "\<dots> = x # split_acc [] (join '' '' (y # ys))"
    using x by (simp add: isspace_blank)
  also have "\<dots> = x # y # ys" using 3(2) [OF rest] by simp
  finally show ?case by simp
qed

lemma set_join: "c \<in> set (join sep ws) \<Longrightarrow> c \<in> set sep \<or> (\<exists>w\<in>set ws. c \<in> set w)"
  by (induction sep ws rule: join.induct) auto


lemma split_kept_words:
  assumes "w \<in> set (split (kept t))"
  shows "w \<noteq> [] \<and> (\<forall>c\<in>set w. is_az c)"
proof -
  have e: "\<forall>c\<in>set []. \<not> py_isspace c" by simp
  from assms have a: "w \<in> set (split_acc [] (kept t))" by (simp add: split_def)
  have "w \<noteq> [] \<and> (\<forall>c\<in>set w. \<not> py_isspace c \<and> (c \<in> set [] \<or> c \<in> set (kept t)))"
    by (rule split_acc_words [OF e a])
  then show ?thesis by (auto simp: kept_def)
qed

lemma preprocess_kept: "preprocess_text t = join '' '' (split (kept t))"
  by (simp add: preprocess_text_def kept_def)

lemma split_preprocess: "split (preprocess_text t) = split (kept t)"
proof -
  have "\<forall>w\<in>set (split (kept t)). w \<noteq> [] \<and> (\<forall>c\<in>set w. \<not> py_isspace c)"
    using split_kept_words is_az_not_space by blast
  then have "split_acc [] (join '' '' (split (kept t))) = split (kept t)" by (rule split_join)
  then show ?thesis by (simp add: preprocess_kept split_def)
qed

lemma preprocess_chars:
  assumes "c \<in> set (preprocess_text t)"
  shows "is_az c \<or> c = CHR '' ''"
proof -
  from assms have "c \<in> set '' '' \<or> (\<exists>w\<in>set (split (kept t)). c \<in> set w)"
    unfolding preprocess_kept by (rule set_join)
  then show ?thesis using split_kept_words [of _ t] by auto
qed

lemma kept_preprocess: "kept (preprocess_text t) = preprocess_text t"
proof -
  have "\<forall>c\<in>set (preprocess_text t). lower_char c = c"
    using preprocess_chars lower_char_az lower_char_blank by blast
  then have "lower (preprocess_text t) = preprocess_text t"
    unfolding lower_def by (simp add: map_idI)
  moreover have "\<forall>c\<in>set (preprocess_text t). is_az c \<or> py_isspace c"
    using preprocess_chars isspace_blank by blast
  ultimately show ?thesis by (simp add: kept_def)
qed

text \<open>
  C8. Normalisation is idempotent: for every text, \<open>preprocess_text\<close> applied to
  its own result returns that result unchanged.
\<close>

theorem preprocess_text_idempotent:
  "preprocess_text (preprocess_text t) = preprocess_text t"
proof -
  have "preprocess_text (preprocess_text t) = join '' '' (split (kept (preprocess_text t)))"
    by (rule preprocess_kept)
  also have "\<dots> = join '' '' (split (preprocess_text t))" by (simp only: kept_preprocess)
  also have "\<dots> = join '' '' (split (kept t))" by (simp only: split_preprocess)
  also have "\<dots> = preprocess_text t" by (simp only: preprocess_kept)
  finally show ?thesis .
qed

subsection \<open>Vocabulary and tokenizer\<close>

lemma index_words_notin: "w \<notin> set ws \<Longrightarrow> index_words idx ws m w = m w"
  by (induction ws arbitrary: idx m) simp_all

lemma index_words_positive:
  "index_words idx ws m w = Some i \<Longrightarrow> m w = Some i \<or> 1 \<le> i"
proof (induction ws arbitrary: idx m)
  case Nil
  then show ?case by simp
next
  case (Cons a ws)
  from Cons.prems have "index_words (Suc idx) ws (m(a \<mapsto> int idx + 1)) w = Some i" by simp
  then have "(m(a \<mapsto> int idx + 1)) w = Some i \<or> 1 \<le> i" by (rule Cons.IH)
  then show ?case by (cases "w = a") auto
qed

lemma vocab_unk: "build_basic_vocab ''<UNK>'' = Some 1"
  by (simp add: build_basic_vocab_def)

lemma vocab_absent:
  assumes "w \<notin> set common_words"
  shows "build_basic_vocab w = None"
proof -
  have "''<PAD>'' \<in> set common_words" "''<UNK>'' \<in> set common_words"
    by (simp_all add: common_words_def)
  with assms have "w \<noteq> ''<PAD>''" "w \<noteq> ''<UNK>''" by auto
  then have "build_basic_vocab w = index_words 0 common_words Map.empty w"
    by (simp add: build_basic_vocab_def)
  also have "\<dots> = Map.empty w" using assms by (rule index_words_notin)
  finally show ?thesis by simp
qed

lemma vocab_positive:
  assumes "build_basic_vocab w = Some i" and "w \<noteq> ''<PAD>''"
  shows "1 \<le> i"
proof (cases "w = ''<UNK>''")
  case True
  with assms(1) show ?thesis by (simp add: vocab_unk)
next
  case False
  with assms have "index_words 0 common_words Map.empty w = Some i"
    by (simp add: build_basic_vocab_def)
  then have "Map.empty w = Some i \<or> 1 \<le> i" by (rule index_words_positive)
  then show ?thesis by simp
qed


lemma to_indices_total:
  "wi ''<UNK>'' = Some unk \<Longrightarrow>
   to_indices wi ws = Inr (map (\<lambda>w. case wi w of None \<Rightarrow> unk | Some i \<Rightarrow> i) ws)"
  by (induction ws) simp_all

lemma to_indices_vocab: "to_indices build_basic_vocab ws = Inr (map word_idx ws)"
proof -
  have "to_indices build_basic_vocab ws =
        Inr (map (\<lambda>w. case build_basic_vocab w of None \<Rightarrow> 1 | Some i \<Rightarrow> i) ws)"
    using vocab_unk by (rule to_indices_total)
  then show ?thesis by (simp add: word_idx_def [abs_def])
qed


lemma tokenize_TextTokenizer:
  "tokenize (TextTokenizer ml vs) t =
     Inr (let sequence = map word_idx (py_take ml (words_of t))
          in if int (length sequence) < ml
             then sequence @ replicate (nat (ml - int (length sequence))) 0
             else sequence)"
  by (simp add: tokenize_def TextTokenizer_def to_indices_vocab words_of_def Let_def)

lemma py_take_nonneg: "0 \<le> n \<Longrightarrow> py_take n xs = take (nat n) xs"
  by (simp add: py_take_def)

lemma words_of_az: "w \<in> set (words_of t) \<Longrightarrow> w \<noteq> [] \<and> (\<forall>c\<in>set w. is_az c)"
  unfolding words_of_def split_preprocess by (rule split_kept_words)

lemma word_idx_nonzero:
  assumes "w \<in> set (words_of t)"
  shows "word_idx w \<noteq> 0"
proof (cases "build_basic_vocab w")
  case None
  then show ?thesis by (simp add: word_idx_def)
next
  case (Some i)
  from assms have "\<forall>c\<in>set w. is_az c" using words_of_az by blast
  moreover have "\<not> is_az CHR ''<''" by (simp add: is_az_def)
  ultimately have "w \<noteq> ''<PAD>''" by auto
  with Some have "1 \<le> i" by (rule vocab_positive)
  with Some show ?thesis by (simp add: word_idx_def)
qed

lemmas char_eval = py_isspace_def is_az_def lower_char_def lower_def char_of_def bit_iff_odd
lemmas text_eval = words_of_def preprocess_text_def split_def char_eval

lemma tokenize_seq:
  assumes "0 \<le> ml"
  shows "tokenize (TextTokenizer ml vs) t =
     Inr (take (nat ml) (map word_idx (words_of t)) @ replicate (nat ml - length (words_of t)) 0)"
proof -
  let ?m = "map word_idx (take (nat ml) (words_of t))"
  have "tokenize (TextTokenizer ml vs) t =
        Inr (if int (length ?m) < ml then ?m @ replicate (nat (ml - int (length ?m))) 0 else ?m)"
    using assms by (simp add: tokenize_TextTokenizer py_take_nonneg Let_def)
  moreover have "(if int (length ?m) < ml then ?m @ replicate (nat (ml - int (length ?m))) 0 else ?m)
       = take (nat ml) (map word_idx (words_of t)) @ replicate (nat ml - length (words_of t)) 0"
    using assms by (auto simp: take_map min_def nat_diff_distrib')
  ultimately show ?thesis by simp
qed

text \<open>
  C2. For every text, \<open>tokenize\<close> returns exactly \<open>max_length\<close> integers (80 by
  default): the indices of the normalised words, cut to the first \<open>max_length\<close>
  when there are more and padded on the right with 0 when there are fewer.
\<close>

theorem tokenize_length:
  assumes "0 \<le> ml"
  shows "tokenize (TextTokenizer ml vs) t =
           Inr (take (nat ml) (map word_idx (words_of t))
                @ replicate (nat ml - length (words_of t)) 0)
       \<and> length (take (nat ml) (map word_idx (words_of t))
                @ replicate (nat ml - length (words_of t)) 0) = nat ml"
  using tokenize_seq [OF assms] by auto

theorem tokenize_length_witness:
  "(0::int) \<le> default_max_length
   \<and> tokenize (TextTokenizer default_max_length default_vocab_size) ''I am HAPPY, 42!'' =
       Inr (map word_idx [''i'', ''am'', ''happy''] @ replicate 77 0)
   \<and> length (map word_idx [''i'', ''am'', ''happy''] @ replicate 77 (0::int)) = 80"
proof -
  have h: "(0::int) \<le> default_max_length" by (simp add: default_max_length_def)
  have w: "words_of ''I am HAPPY, 42!'' = [''i'', ''am'', ''happy'']" by (simp add: text_eval)
  from tokenize_length [OF h, of default_vocab_size "''I am HAPPY, 42!''"] h show ?thesis
    unfolding w by (simp add: default_max_length_def)
qed

text \<open>
  C5. A word of the normalised text that the vocabulary does not hold is mapped to
  the unknown index 1; the tokens of the single unknown word \<^verbatim>\<open>xyzzy\<close> are 1
  followed by 79 zeros.
\<close>

theorem tokenize_unknown_word:
  "(i < length (words_of t) \<and> int i < ml \<and> build_basic_vocab (words_of t ! i) = None
      \<longrightarrow> (\<exists>sequence. tokenize (TextTokenizer ml vs) t = Inr sequence \<and> sequence ! i = 1))
   \<and> build_basic_vocab ''<UNK>'' = Some 1
   \<and> tokenize (TextTokenizer default_max_length vs) ''xyzzy'' = Inr (1 # replicate 79 0)"
proof (intro conjI impI)
  assume a: "i < length (words_of t) \<and> int i < ml \<and> build_basic_vocab (words_of t ! i) = None"
  then have ml: "0 \<le> ml" by simp
  from a have "i < nat ml" by linarith
  with a have "(take (nat ml) (map word_idx (words_of t)) @ replicate (nat ml - length (words_of t)) 0) ! i
      = word_idx (words_of t ! i)"
    by (simp add: nth_append)
  also from a have "\<dots> = 1" by (simp add: word_idx_def)
  finally show "\<exists>sequence. tokenize (TextTokenizer ml vs) t = Inr sequence \<and> sequence ! i = 1"
    using tokenize_seq [OF ml] by simp
next
  show "build_basic_vocab ''<UNK>'' = Some 1" by (rule vocab_unk)
next
  have w: "words_of ''xyzzy'' = [''xyzzy'']" by (simp add: text_eval)
  have "''xyzzy'' \<notin> set common_words" by (simp add: common_words_def)
  then have "word_idx ''xyzzy'' = 1" by (simp add: word_idx_def vocab_absent)
  moreover have "replicate 79 (0::int) = replicate (nat 80 - 1) 0" by simp
  ultimately show "tokenize (TextTokenizer default_max_length vs) ''xyzzy'' = Inr (1 # replicate 79 0)"
    using tokenize_seq [of 80 vs "''xyzzy''"] unfolding w default_max_length_def by simp
qed

theorem tokenize_unknown_word_witness:
  "0 < length (words_of ''qwop sad'') \<and> int 0 < (2::int)
   \<and> build_basic_vocab (words_of ''qwop sad'' ! 0) = None
   \<and> (\<exists>sequence. tokenize (TextTokenizer 2 default_vocab_size) ''qwop sad'' = Inr sequence
         \<and> sequence ! 0 = 1)"
proof -
  have w: "words_of ''qwop sad'' = [''qwop'', ''sad'']" by (simp add: text_eval)
  have "''qwop'' \<notin> set common_words" by (simp add: common_words_def)
  then have n: "build_basic_vocab ''qwop'' = None" by (rule vocab_absent)
  have h: "0 < length (words_of ''qwop sad'') \<and> int 0 < (2::int)
     \<and> build_basic_vocab (words_of ''qwop sad'' ! 0) = None"
    using n by (simp add: w)
  from tokenize_unknown_word [of 0 "''qwop sad''" 2 default_vocab_size] h show ?thesis by blast
qed

text \<open>
  C9. A text whose normalisation is empty is tokenized to the all-zero sequence of
  length \<open>max_length\<close>, and \<open>tokenize\<close> raises on no text at all.
\<close>

theorem tokenize_empty_text:
  "(preprocess_text t = [] \<longrightarrow> tokenize (TextTokenizer ml vs) t = Inr (replicate (nat ml) 0))
   \<and> (\<exists>sequence. tokenize (TextTokenizer ml vs) u = Inr sequence)"
proof (intro conjI impI)
  assume "preprocess_text t = []"
  then have "words_of t = []" by (simp add: words_of_def split_def)
  then show "tokenize (TextTokenizer ml vs) t = Inr (replicate (nat ml) 0)"
    by (simp add: tokenize_TextTokenizer py_take_def)
next
  show "\<exists>sequence. tokenize (TextTokenizer ml vs) u = Inr sequence"
    by (simp add: tokenize_TextTokenizer)
qed

theorem tokenize_empty_text_witness:
  "preprocess_text ''2024 !?'' = []
   \<and> tokenize (TextTokenizer default_max_length default_vocab_size) ''2024 !?'' = Inr (replicate 80 0)"
proof -
  have h: "preprocess_text ''2024 !?'' = []" by (simp add: text_eval)
  from tokenize_empty_text [of "''2024 !?''" default_max_length default_vocab_size] h
  show ?thesis by (simp add: default_max_length_def)
qed

subsection \<open>The largest score and the score dictionary\<close>

lemma argmax_scan_first_max:
  assumes "length pre = i" "mi < i" "pre ! mi = mv"
    and "\<forall>j<i. pre ! j \<le> mv" and "\<forall>j<mi. pre ! j < mv"
  shows "argmax_scan xs i mv mi < i + length xs
     \<and> (\<forall>j < i + length xs. (pre @ xs) ! j \<le> (pre @ xs) ! argmax_scan xs i mv mi)
     \<and> (\<forall>j < argmax_scan xs i mv mi. (pre @ xs) ! j < (pre @ xs) ! argmax_scan xs i mv mi)"
  using assms
proof (induction xs arbitrary: pre i mv mi)
  case Nil
  then show ?case by simp
next
  case (Cons x xs)
  show ?case
  proof (cases "mv < x")
    case True
    have l: "length (pre @ [x]) = Suc i" using Cons.prems(1) by simp
    have a: "i < Suc i" by simp
    have b: "(pre @ [x]) ! i = x" using Cons.prems(1) by (simp add: nth_append)
    have c: "\<forall>j<Suc i. (pre @ [x]) ! j \<le> x"
      using Cons.prems(1,4) True by (auto simp: nth_append less_Suc_eq)
    have d: "\<forall>j<i. (pre @ [x]) ! j < x"
      using Cons.prems(1,4) True by (auto simp: nth_append)
    from Cons.IH [OF l a b c d] True show ?thesis by simp
  next
    case False
    have l: "length (pre @ [x]) = Suc i" using Cons.prems(1) by simp
    have a: "mi < Suc i" using Cons.prems(2) by simp
    have b: "(pre @ [x]) ! mi = mv" using Cons.prems(1,2,3) by (simp add: nth_append)
    have c: "\<forall>j<Suc i. (pre @ [x]) ! j \<le> mv"
      using Cons.prems(1,4) False by (auto simp: nth_append less_Suc_eq)
    have d: "\<forall>j<mi. (pre @ [x]) ! j < mv"
      using Cons.prems(1,2,5) by (auto simp: nth_append)
    from Cons.IH [OF l a b c d] False show ?thesis by simp
  qed
qed

lemma np_argmax_first_max:
  assumes "xs \<noteq> []"
  shows "\<exists>i. np_argmax xs = Inr i \<and> i < length xs
     \<and> (\<forall>j < length xs. xs ! j \<le> xs ! i) \<and> (\<forall>j < i. xs ! j < xs ! i)"
proof -
  from assms obtain x ys where xs: "xs = x # ys" by (cases xs) auto
  have "argmax_scan ys 1 x 0 < 1 + length ys
     \<and> (\<forall>j < 1 + length ys. ([x] @ ys) ! j \<le> ([x] @ ys) ! argmax_scan ys 1 x 0)
     \<and> (\<forall>j < argmax_scan ys 1 x 0. ([x] @ ys) ! j < ([x] @ ys) ! argmax_scan ys 1 x 0)"
    by (rule argmax_scan_first_max) simp_all
  then show ?thesis by (simp add: xs)
qed

lemma nth_is_Max:
  assumes "i < length xs" "\<forall>j < length xs. xs ! j \<le> xs ! i"
  shows "xs ! i = Max (set xs)"
proof (rule sym, rule Max_eqI)
  show "finite (set xs)" by simp
  show "xs ! i \<in> set xs" using assms(1) by simp
  fix y assume "y \<in> set xs"
  then obtain j where "j < length xs" "xs ! j = y" by (auto simp: in_set_conv_nth)
  with assms(2) show "y \<le> xs ! i" by auto
qed

lemma update_fresh: "k \<notin> fst ` set al \<Longrightarrow> AList.update k v al = al @ [(k, v)]"
  by (induction al) auto

lemma fill_scores_distinct:
  "distinct (map fst d @ ls) \<Longrightarrow> idx + length ls \<le> length p \<Longrightarrow>
     fill_scores p idx ls d = d @ zip ls (drop idx p)"
proof (induction ls arbitrary: idx d)
  case Nil
  then show ?case by simp
next
  case (Cons l ls)
  from Cons.prems(1) have fresh: "l \<notin> fst ` set d" by auto
  from Cons.prems(1) have dist: "distinct (map fst (d @ [(l, p ! idx)]) @ ls)" by auto
  from Cons.prems(2) have len: "Suc idx + length ls \<le> length p" and lt: "idx < length p" by simp_all
  have "fill_scores p idx (l # ls) d = fill_scores p (Suc idx) ls (d @ [(l, p ! idx)])"
    using fresh by (simp add: update_fresh)
  also have "\<dots> = (d @ [(l, p ! idx)]) @ zip ls (drop (Suc idx) p)"
    using dist len by (rule Cons.IH)
  also have "\<dots> = d @ zip (l # ls) (drop idx p)"
    using lt by (simp add: Cons_nth_drop_Suc [symmetric])
  finally show ?case .
qed

lemma fill_scores_keys:
  "distinct (map fst d) \<Longrightarrow>
     distinct (map fst (fill_scores p idx ls d))
     \<and> set (map fst (fill_scores p idx ls d)) = set (map fst d) \<union> set ls"
proof (induction ls arbitrary: idx d)
  case Nil
  then show ?case by simp
next
  case (Cons l ls)
  have "distinct (map fst (AList.update l (p ! idx) d))"
    using Cons.prems by (rule distinct_update)
  from Cons.IH [OF this, of "Suc idx"] show ?case
    by (auto simp: dom_update)
qed

subsection \<open>Prediction and command line\<close>

lemma predict_emotion_mismatch:
  assumes "tokenize tok text = Inr input_sequence" "session input_sequence = Inr predictions"
    and "length predictions \<noteq> length labels"
  shows "predict_emotion session text labels tok =
     Failure (''Model output size ('' @ str_nat (length predictions)
              @ '') doesn't match emotion labels count ('' @ str_nat (length labels)
              @ ''). Model expects '' @ str_nat (length predictions) @ '' emotions.'')"
  using assms by (simp add: predict_emotion_def predict_emotion_try_def format_predictions_def)

lemma predict_emotion_empty:
  assumes "tokenize tok text = Inr input_sequence" "session input_sequence = Inr []"
  shows "predict_emotion session text [] tok =
     Failure ''Prediction failed: attempt to get argmax of an empty sequence''"
  using assms by (simp add: predict_emotion_def predict_emotion_try_def format_predictions_def)

lemma predict_emotion_ok:
  assumes "tokenize tok text = Inr input_sequence" "session input_sequence = Inr predictions"
    and "length predictions = length labels" "np_argmax predictions = Inr i"
  shows "predict_emotion session text labels tok =
     Success (labels ! i) (predictions ! i) (fill_scores predictions 0 labels [])
       ''bilstm_onnx'' (length text) (count_nonzero input_sequence)"
  using assms by (simp add: predict_emotion_def predict_emotion_try_def format_predictions_def)

lemma predict_emotion_success:
  assumes "success (predict_emotion session text labels tok)"
  shows "\<exists>input_sequence predictions i.
     tokenize tok text = Inr input_sequence \<and> session input_sequence = Inr predictions
     \<and> length predictions = length labels \<and> np_argmax predictions = Inr i
     \<and> predict_emotion session text labels tok =
         Success (labels ! i) (predictions ! i) (fill_scores predictions 0 labels [])
           ''bilstm_onnx'' (length text) (count_nonzero input_sequence)"
proof (cases "tokenize tok text")
  case (Inl e)
  with assms show ?thesis by (simp add: predict_emotion_def predict_emotion_try_def)
next
  case tk: (Inr input_sequence)
  show ?thesis
  proof (cases "session input_sequence")
    case (Inl e)
    with assms tk show ?thesis by (simp add: predict_emotion_def predict_emotion_try_def)
  next
    case se: (Inr predictions)
    show ?thesis
    proof (cases "length predictions = length labels")
      case False
      with assms predict_emotion_mismatch [where session = "session", OF tk se] show ?thesis by simp
    next
      case len: True
      show ?thesis
      proof (cases "np_argmax predictions")
        case (Inl e)
        with assms tk se len show ?thesis
          by (simp add: predict_emotion_def predict_emotion_try_def format_predictions_def)
      next
        case (Inr i)
        with predict_emotion_ok [where session = "session", OF tk se len] tk se len show ?thesis by simp
      qed
    qed
  qed
qed

lemma count_nonzero_tokens:
  "count_nonzero (take n (map word_idx (words_of t)) @ replicate k 0) = min (length (words_of t)) n"
proof -
  have "\<forall>x\<in>set (take n (map word_idx (words_of t))). x \<noteq> 0"
    using word_idx_nonzero by (auto dest!: in_set_takeD)
  then have "filter (\<lambda>x. x \<noteq> 0) (take n (map word_idx (words_of t))) = take n (map word_idx (words_of t))"
    by (simp only: filter_True)
  then show ?thesis by (simp add: count_nonzero_def)
qed

text \<open>
  C3. When the session returns a non-empty score vector with as many scores as there
  are labels, the prediction succeeds; its emotion is the label at the position of
  the largest score, its confidence is that score unchanged, and among equal largest
  scores the first position is taken.
\<close>

theorem predict_emotion_argmax:
  assumes "tokenize tok text = Inr input_sequence" "session input_sequence = Inr predictions"
    and "length predictions = length labels" "predictions \<noteq> []"
  shows "success (predict_emotion session text labels tok)
     \<and> (\<exists>i<length predictions.
           emotion (predict_emotion session text labels tok) = labels ! i
         \<and> confidence (predict_emotion session text labels tok) = predictions ! i
         \<and> predictions ! i = Max (set predictions)
         \<and> (\<forall>j<i. predictions ! j < Max (set predictions)))"
proof -
  from np_argmax_first_max [OF assms(4)] obtain i where i:
    "np_argmax predictions = Inr i" "i < length predictions"
    "\<forall>j < length predictions. predictions ! j \<le> predictions ! i"
    "\<forall>j < i. predictions ! j < predictions ! i" by blast
  have m: "predictions ! i = Max (set predictions)" using i(2,3) by (rule nth_is_Max)
  have r: "predict_emotion session text labels tok =
     Success (labels ! i) (predictions ! i) (fill_scores predictions 0 labels [])
       ''bilstm_onnx'' (length text) (count_nonzero input_sequence)"
    using assms(1,2,3) i(1) by (rule predict_emotion_ok)
  from i(4) m have "\<forall>j<i. predictions ! j < Max (set predictions)" by simp
  with r m i(2) show ?thesis by auto
qed

text \<open>
  C4, as the code has it. Once the session has returned its scores, the prediction is
  a failure if and only if the number of scores differs from the number of labels or
  the score vector is empty; when the numbers differ, the message names both and says
  that the model expects the number of scores.
\<close>

theorem predict_emotion_failure_iff:
  assumes "tokenize tok text = Inr input_sequence" "session input_sequence = Inr predictions"
  shows "(\<not> success (predict_emotion session text labels tok)
           \<longleftrightarrow> length predictions \<noteq> length labels \<or> predictions = [])
     \<and> (length predictions \<noteq> length labels \<longrightarrow>
          predict_emotion session text labels tok =
            Failure (''Model output size ('' @ str_nat (length predictions)
              @ '') doesn't match emotion labels count ('' @ str_nat (length labels)
              @ ''). Model expects '' @ str_nat (length predictions) @ '' emotions.''))"
proof -
  have a: "length predictions \<noteq> length labels \<Longrightarrow> \<not> success (predict_emotion session text labels tok)"
    using predict_emotion_mismatch [where session = "session", OF assms] by simp
  have b: "predictions = [] \<Longrightarrow> \<not> success (predict_emotion session text labels tok)"
    using assms by (cases labels)
      (simp_all add: predict_emotion_def predict_emotion_try_def format_predictions_def)
  have c: "length predictions = length labels \<Longrightarrow> predictions \<noteq> [] \<Longrightarrow>
      success (predict_emotion session text labels tok)"
  proof -
    assume l: "length predictions = length labels" and n: "predictions \<noteq> []"
    from np_argmax_first_max [OF n] obtain i where "np_argmax predictions = Inr i" by blast
    with predict_emotion_ok [where session = "session", OF assms l] show ?thesis by simp
  qed
  from a b c predict_emotion_mismatch [where session = "session", OF assms] show ?thesis by blast
qed

text \<open>
  C7, as the code has it. In a successful result the keys of \<open>scores\<close> are the labels,
  each once; when the labels are pairwise distinct, \<open>scores\<close> pairs the label at each
  position with the score at that position, in the order of the labels, and has as
  many entries as the model has output classes.
\<close>

theorem predict_emotion_scores:
  assumes "tokenize tok text = Inr input_sequence" "session input_sequence = Inr predictions"
    and "success (predict_emotion session text labels tok)"
  shows "distinct (map fst (scores (predict_emotion session text labels tok)))
     \<and> set (map fst (scores (predict_emotion session text labels tok))) = set labels
     \<and> (distinct labels \<longrightarrow>
          scores (predict_emotion session text labels tok) = zip labels predictions
        \<and> length (scores (predict_emotion session text labels tok)) = length predictions)"
proof -
  from predict_emotion_success [OF assms(3)] assms(1,2) obtain i where
    len: "length predictions = length labels" and
    r: "predict_emotion session text labels tok =
         Success (labels ! i) (predictions ! i) (fill_scores predictions 0 labels [])
           ''bilstm_onnx'' (length text) (count_nonzero input_sequence)" by auto
  have k: "distinct (map fst (fill_scores predictions 0 labels []))
     \<and> set (map fst (fill_scores predictions 0 labels [])) = set labels"
    using fill_scores_keys [of "[]" predictions 0 labels] by simp
  have d: "distinct labels \<Longrightarrow> fill_scores predictions 0 labels [] = zip labels predictions"
    using fill_scores_distinct [of "[]" labels 0 predictions] len by simp
  from k d len show ?thesis unfolding r by simp
qed

text \<open>
  C6. In a successful result \<open>tokens_used\<close> is the number of non-zero entries of the
  token sequence given to the session, which is the smaller of the number of
  normalised words and \<open>max_length\<close>.
\<close>

theorem predict_emotion_tokens_used:
  assumes "0 \<le> ml" "tokenize (TextTokenizer ml vs) text = Inr input_sequence"
    and "success (predict_emotion session text labels (TextTokenizer ml vs))"
  shows "tokens_used (predict_emotion session text labels (TextTokenizer ml vs))
           = count_nonzero input_sequence
     \<and> count_nonzero input_sequence = min (length (words_of text)) (nat ml)"
proof -
  from predict_emotion_success [OF assms(3)] assms(2)
  have "tokens_used (predict_emotion session text labels (TextTokenizer ml vs))
           = count_nonzero input_sequence" by auto
  moreover from assms(2) tokenize_seq [OF assms(1), of vs "text"]
  have "input_sequence = take (nat ml) (map word_idx (words_of text))
          @ replicate (nat ml - length (words_of text)) 0" by simp
  then have "count_nonzero input_sequence = min (length (words_of text)) (nat ml)"
    by (simp only: count_nonzero_tokens)
  ultimately show ?thesis by simp
qed

lemma main_success:
  assumes "success (fst (main InferenceSession argv))"
  shows "4 \<le> length argv \<and> snd (main InferenceSession argv) = 0
     \<and> (\<exists>session. fst (main InferenceSession argv) =
           predict_emotion session (argv ! 2) (split_on CHR '','' (argv ! 3))
             (TextTokenizer 80 default_vocab_size))"
  using assms
  by (auto simp: main_def Let_def split: if_splits sum.splits)

text \<open>
  C10. In a successful result, of \<open>predict_emotion\<close> and of \<open>main\<close>, \<open>text_length\<close> is
  the number of characters of the text as the caller gave it.
\<close>

theorem text_length_raw:
  "(success (predict_emotion session raw_text labels tok)
      \<longrightarrow> text_length (predict_emotion session raw_text labels tok) = length raw_text)
   \<and> (success (fst (main InferenceSession argv))
      \<longrightarrow> text_length (fst (main InferenceSession argv)) = length (argv ! 2))"
proof (intro conjI impI)
  assume "success (predict_emotion session raw_text labels tok)"
  from predict_emotion_success [OF this]
  show "text_length (predict_emotion session raw_text labels tok) = length raw_text" by auto
next
  assume s: "success (fst (main InferenceSession argv))"
  from main_success [OF s] obtain session where
    m: "fst (main InferenceSession argv) =
           predict_emotion session (argv ! 2) (split_on CHR '','' (argv ! 3))
             (TextTokenizer 80 default_vocab_size)" by blast
  from s have "success (predict_emotion session (argv ! 2) (split_on CHR '','' (argv ! 3))
             (TextTokenizer 80 default_vocab_size))" by (simp only: m)
  from predict_emotion_success [OF this]
  show "text_length (fst (main InferenceSession argv)) = length (argv ! 2)"
    unfolding m by auto
qed

subsection \<open>Examples\<close>

text \<open>A run used by the examples below.\<close>

lemma tokenize_example: "tokenize (TextTokenizer 80 default_vocab_size) ''I am HAPPY, 42!'' =
    Inr (map word_idx [''i'', ''am'', ''happy''] @ replicate 77 0)"
proof -
  have w: "words_of ''I am HAPPY, 42!'' = [''i'', ''am'', ''happy'']" by (simp add: text_eval)
  show ?thesis using tokenize_seq [of 80 default_vocab_size "''I am HAPPY, 42!''"]
    unfolding w by simp
qed

theorem predict_emotion_argmax_witness:
  "tokenize (TextTokenizer 80 default_vocab_size) ''I am HAPPY, 42!'' =
       Inr (map word_idx [''i'', ''am'', ''happy''] @ replicate 77 0)
   \<and> (\<lambda>s. Inr [1/2, 1/2 :: real]) (map word_idx [''i'', ''am'', ''happy''] @ replicate 77 0)
        = (Inr [1/2, 1/2] :: py_exception + real list)
   \<and> length [1/2, 1/2 :: real] = length [''x'', ''y'']
   \<and> success (predict_emotion (\<lambda>s. Inr [1/2, 1/2 :: real]) ''I am HAPPY, 42!'' [''x'', ''y'']
         (TextTokenizer 80 default_vocab_size))
   \<and> emotion (predict_emotion (\<lambda>s. Inr [1/2, 1/2 :: real]) ''I am HAPPY, 42!'' [''x'', ''y'']
         (TextTokenizer 80 default_vocab_size)) = ''x''
   \<and> confidence (predict_emotion (\<lambda>s. Inr [1/2, 1/2 :: real]) ''I am HAPPY, 42!'' [''x'', ''y'']
         (TextTokenizer 80 default_vocab_size)) = 1/2"
proof -
  let ?r = "predict_emotion (\<lambda>s. Inr [1/2, 1/2 :: real]) ''I am HAPPY, 42!'' [''x'', ''y'']
         (TextTokenizer 80 default_vocab_size)"
  have s: "(\<lambda>s. Inr [1/2, 1/2 :: real]) (map word_idx [''i'', ''am'', ''happy''] @ replicate 77 0)
        = (Inr [1/2, 1/2] :: py_exception + real list)" by simp
  have l: "length [1/2, 1/2 :: real] = length [''x'', ''y'']" by simp
  have n: "[1/2, 1/2 :: real] \<noteq> []" by simp
  from predict_emotion_argmax [where session = "\<lambda>s. Inr [1/2, 1/2 :: real]", OF tokenize_example s l n]
  obtain i where i: "success ?r" "i < length [1/2, 1/2 :: real]" "emotion ?r = [''x'', ''y''] ! i"
    "confidence ?r = [1/2, 1/2 :: real] ! i"
    "\<forall>j<i. [1/2, 1/2 :: real] ! j < Max (set [1/2, 1/2 :: real])" by blast
  have "i = 0"
  proof (rule ccontr)
    assume "i \<noteq> 0"
    then have "0 < i" by simp
    with i(5) have "[1/2, 1/2 :: real] ! 0 < Max (set [1/2, 1/2 :: real])" by blast
    then show False by simp
  qed
  with i tokenize_example s l show ?thesis by simp
qed

text \<open>The claim C4 as the specification words it fails where the model returns no
  score and no label is given: the lengths agree and the result is a failure.\<close>

theorem predict_emotion_empty_counterexample:
  "predict_emotion (\<lambda>s. Inr ([] :: real list)) ''hello'' [] (TextTokenizer 80 10000)
     = Failure ''Prediction failed: attempt to get argmax of an empty sequence''
   \<and> \<not> (length ([] :: real list) \<noteq> length ([] :: string list))"
  by (simp add: predict_emotion_def predict_emotion_try_def format_predictions_def
        tokenize_TextTokenizer)

theorem predict_emotion_failure_iff_witness:
  "tokenize (TextTokenizer 80 default_vocab_size) ''I am HAPPY, 42!'' =
       Inr (map word_idx [''i'', ''am'', ''happy''] @ replicate 77 0)
   \<and> (\<lambda>s. Inr [1/5, 3/10, 1/2 :: real]) (map word_idx [''i'', ''am'', ''happy''] @ replicate 77 0)
        = (Inr [1/5, 3/10, 1/2] :: py_exception + real list)
   \<and> length [1/5, 3/10, 1/2 :: real] \<noteq> length [''a'', ''b'']
   \<and> predict_emotion (\<lambda>s. Inr [1/5, 3/10, 1/2 :: real]) ''I am HAPPY, 42!'' [''a'', ''b'']
         (TextTokenizer 80 default_vocab_size)
       = Failure ''Model output size (3) doesn't match emotion labels count (2). Model expects 3 emotions.''"
proof -
  have s: "(\<lambda>s. Inr [1/5, 3/10, 1/2 :: real]) (map word_idx [''i'', ''am'', ''happy''] @ replicate 77 0)
        = (Inr [1/5, 3/10, 1/2] :: py_exception + real list)" by simp
  have l: "length [1/5, 3/10, 1/2 :: real] \<noteq> length [''a'', ''b'']" by simp
  have "digit_char 3 = CHR ''3''" "digit_char 2 = CHR ''2''"
    by (simp_all add: digit_char_def char_of_def bit_iff_odd)
  then have d: "digit_char (Suc (Suc (Suc 0))) = CHR ''3''" "digit_char (Suc (Suc 0)) = CHR ''2''"
    by (simp_all add: numeral_3_eq_3 numeral_2_eq_2)
  from predict_emotion_failure_iff [where session = "\<lambda>s. Inr [1/5, 3/10, 1/2 :: real]"
      and labels = "[''a'', ''b'']", OF tokenize_example s] l
  have "predict_emotion (\<lambda>s. Inr [1/5, 3/10, 1/2 :: real]) ''I am HAPPY, 42!'' [''a'', ''b'']
         (TextTokenizer 80 default_vocab_size)
       = Failure (''Model output size ('' @ str_nat (length [1/5, 3/10, 1/2 :: real])
              @ '') doesn't match emotion labels count ('' @ str_nat (length [''a'', ''b''])
              @ ''). Model expects '' @ str_nat (length [1/5, 3/10, 1/2 :: real]) @ '' emotions.'')"
    by blast
  then show ?thesis using tokenize_example s l by (simp add: d)
qed

text \<open>The claim C7 as the specification words it fails where a label is given twice:
  two scores and two labels give one entry, which holds the later score.\<close>

theorem predict_emotion_scores_counterexample:
  "success (predict_emotion (\<lambda>s. Inr [1/5, 4/5 :: real]) ''hello'' [''a'', ''a'']
       (TextTokenizer 80 10000))
   \<and> scores (predict_emotion (\<lambda>s. Inr [1/5, 4/5 :: real]) ''hello'' [''a'', ''a'']
       (TextTokenizer 80 10000)) = [(''a'', 4/5)]
   \<and> length (scores (predict_emotion (\<lambda>s. Inr [1/5, 4/5 :: real]) ''hello'' [''a'', ''a'']
       (TextTokenizer 80 10000))) \<noteq> length [1/5, 4/5 :: real]"
  by (simp add: predict_emotion_def predict_emotion_try_def format_predictions_def
        tokenize_TextTokenizer)

theorem predict_emotion_scores_witness:
  "tokenize (TextTokenizer 80 default_vocab_size) ''I am HAPPY, 42!'' =
       Inr (map word_idx [''i'', ''am'', ''happy''] @ replicate 77 0)
   \<and> (\<lambda>s. Inr [1/5, 3/10, 1/2 :: real]) (map word_idx [''i'', ''am'', ''happy''] @ replicate 77 0)
        = (Inr [1/5, 3/10, 1/2] :: py_exception + real list)
   \<and> success (predict_emotion (\<lambda>s. Inr [1/5, 3/10, 1/2 :: real]) ''I am HAPPY, 42!''
         [''angry'', ''happy'', ''sad''] (TextTokenizer 80 default_vocab_size))
   \<and> distinct [''angry'', ''happy'', ''sad'']
   \<and> scores (predict_emotion (\<lambda>s. Inr [1/5, 3/10, 1/2 :: real]) ''I am HAPPY, 42!''
         [''angry'', ''happy'', ''sad''] (TextTokenizer 80 default_vocab_size))
       = [(''angry'', 1/5), (''happy'', 3/10), (''sad'', 1/2)]"
proof -
  have s: "(\<lambda>s. Inr [1/5, 3/10, 1/2 :: real]) (map word_idx [''i'', ''am'', ''happy''] @ replicate 77 0)
        = (Inr [1/5, 3/10, 1/2] :: py_exception + real list)" by simp
  have ok: "success (predict_emotion (\<lambda>s. Inr [1/5, 3/10, 1/2 :: real]) ''I am HAPPY, 42!''
         [''angry'', ''happy'', ''sad''] (TextTokenizer 80 default_vocab_size))"
    by (simp add: predict_emotion_def predict_emotion_try_def format_predictions_def tokenize_example)
  have d: "distinct [''angry'', ''happy'', ''sad'']" by simp
  from predict_emotion_scores [where session = "\<lambda>s. Inr [1/5, 3/10, 1/2 :: real]", OF tokenize_example s ok] d
  have "scores (predict_emotion (\<lambda>s. Inr [1/5, 3/10, 1/2 :: real]) ''I am HAPPY, 42!''
         [''angry'', ''happy'', ''sad''] (TextTokenizer 80 default_vocab_size))
       = zip [''angry'', ''happy'', ''sad''] [1/5, 3/10, 1/2 :: real]" by blast
  with tokenize_example s ok d show ?thesis by simp
qed

theorem predict_emotion_tokens_used_witness:
  "(0::int) \<le> 80
   \<and> tokenize (TextTokenizer 80 default_vocab_size) ''I am HAPPY, 42!'' =
       Inr (map word_idx [''i'', ''am'', ''happy''] @ replicate 77 0)
   \<and> success (predict_emotion (\<lambda>s. Inr [1/5, 3/10, 1/2 :: real]) ''I am HAPPY, 42!''
         [''angry'', ''happy'', ''sad''] (TextTokenizer 80 default_vocab_size))
   \<and> tokens_used (predict_emotion (\<lambda>s. Inr [1/5, 3/10, 1/2 :: real]) ''I am HAPPY, 42!''
         [''angry'', ''happy'', ''sad''] (TextTokenizer 80 default_vocab_size)) = 3"
proof -
  have h: "(0::int) \<le> 80" by simp
  have ok: "success (predict_emotion (\<lambda>s. Inr [1/5, 3/10, 1/2 :: real]) ''I am HAPPY, 42!''
         [''angry'', ''happy'', ''sad''] (TextTokenizer 80 default_vocab_size))"
    by (simp add: predict_emotion_def predict_emotion_try_def format_predictions_def tokenize_example)
  have w: "words_of ''I am HAPPY, 42!'' = [''i'', ''am'', ''happy'']" by (simp add: text_eval)
  from predict_emotion_tokens_used [OF h tokenize_example ok] show ?thesis using tokenize_example ok by (simp add: w)
qed

theorem text_length_raw_witness:
  "success (predict_emotion (\<lambda>s. Inr [1/5, 3/10, 1/2 :: real]) ''I am HAPPY, 42!''
         [''angry'', ''happy'', ''sad''] (TextTokenizer 80 default_vocab_size))
   \<and> text_length (predict_emotion (\<lambda>s. Inr [1/5, 3/10, 1/2 :: real]) ''I am HAPPY, 42!''
         [''angry'', ''happy'', ''sad''] (TextTokenizer 80 default_vocab_size)) = 15
   \<and> length (preprocess_text ''I am HAPPY, 42!'') = 10
   \<and> success (fst (main (\<lambda>p. Inr (\<lambda>s. Inr [1/5, 3/10, 1/2 :: real]))
         [''bilstm_onnx_inference.py'', ''model.onnx'', ''I am HAPPY, 42!'', ''angry,happy,sad'']))
   \<and> text_length (fst (main (\<lambda>p. Inr (\<lambda>s. Inr [1/5, 3/10, 1/2 :: real]))
         [''bilstm_onnx_inference.py'', ''model.onnx'', ''I am HAPPY, 42!'', ''angry,happy,sad''])) = 15"
proof -
  have ok: "success (predict_emotion (\<lambda>s. Inr [1/5, 3/10, 1/2 :: real]) ''I am HAPPY, 42!''
         [''angry'', ''happy'', ''sad''] (TextTokenizer 80 default_vocab_size))"
    by (simp add: predict_emotion_def predict_emotion_try_def format_predictions_def tokenize_example)
  have m: "fst (main (\<lambda>p. Inr (\<lambda>s. Inr [1/5, 3/10, 1/2 :: real]))
         [''bilstm_onnx_inference.py'', ''model.onnx'', ''I am HAPPY, 42!'', ''angry,happy,sad''])
     = predict_emotion (\<lambda>s. Inr [1/5, 3/10, 1/2 :: real]) ''I am HAPPY, 42!''
         [''angry'', ''happy'', ''sad''] (TextTokenizer 80 default_vocab_size)"
    by (simp add: main_def load_onnx_model_def strip_def py_isspace_def)
  have p: "length (preprocess_text ''I am HAPPY, 42!'') = 10" by (simp add: text_eval)
  from text_length_raw [where session = "\<lambda>s. Inr [1/5, 3/10, 1/2 :: real]"
      and raw_text = "''I am HAPPY, 42!''" and labels = "[''angry'', ''happy'', ''sad'']"
      and tok = "TextTokenizer 80 default_vocab_size"
      and InferenceSession = "\<lambda>p. Inr (\<lambda>s. Inr [1/5, 3/10, 1/2 :: real])"
      and argv = "[''bilstm_onnx_inference.py'', ''model.onnx'', ''I am HAPPY, 42!'', ''angry,happy,sad'']"]
    ok m p show ?thesis by simp
qed

text \<open>
  C1. The exit status of the process is 0 when the printed result has success true
  and is meant to be non-zero on every failure. Here \<open>main\<close> is run where the model
  returns three scores for two labels, and where inference raises: both print a
  failure and exit with status 0, whereas a model that fails to load and a missing
  \<^verbatim>\<open>onnxruntime\<close> exit with status 1.
\<close>

theorem main_prediction_failure_exit_status:
  "main (\<lambda>p. Inr (\<lambda>s. Inr [1/5, 3/10, 1/2 :: real]))
         [''bilstm_onnx_inference.py'', ''model.onnx'', ''hello'', ''a,b'']
     = (Failure ''Model output size (3) doesn't match emotion labels count (2). Model expects 3 emotions.'', 0)
   \<and> main (\<lambda>p. Inr (\<lambda>s. Inl (Exception ''boom'') :: py_exception + real list))
         [''bilstm_onnx_inference.py'', ''model.onnx'', ''hello'', ''a,b'']
     = (Failure ''Prediction failed: boom'', 0)
   \<and> main (\<lambda>p. Inl (Exception ''no such file'') :: py_exception + real session)
         [''bilstm_onnx_inference.py'', ''model.onnx'', ''hello'', ''a,b'']
     = (Failure ''Failed to load ONNX model: no such file'', 1)
   \<and> script (None :: (string \<Rightarrow> py_exception + real session) option)
         [''bilstm_onnx_inference.py'', ''model.onnx'', ''hello'', ''a,b'']
     = (Failure ''onnxruntime not installed. Install with: pip install onnxruntime'', 1)"
proof -
  have "digit_char 3 = CHR ''3''" "digit_char 2 = CHR ''2''"
    by (simp_all add: digit_char_def char_of_def bit_iff_odd)
  then have d: "digit_char (Suc (Suc (Suc 0))) = CHR ''3''" "digit_char (Suc (Suc 0)) = CHR ''2''"
    by (simp_all add: numeral_3_eq_3 numeral_2_eq_2)
  show ?thesis
    by (simp add: script_def main_def load_onnx_model_def strip_def py_isspace_def
        predict_emotion_def predict_emotion_try_def format_predictions_def
        tokenize_TextTokenizer d)
qed

end
